theory Spec2Isabelle
  imports Complex_Main "HOL-Library.Log_Nat"
begin

section \<open>Numbers\<close>

text \<open>
  A JavaScript \<open>number\<close> is an IEEE 754 binary64 value. A finite one is modelled by the
  rational it denotes (\<open>Fin\<close>), next to the two infinities and \<open>NaN\<close>. The results of
  \<open>+\<close>, \<open>-\<close> and \<open>*\<close> are rounded as the hardware rounds them: to the nearest value
  with a 53-bit significand, ties to the even significand, with the subnormal spacing
  \<open>2^-1074\<close> below \<open>2^-1022\<close> and overflow to an infinity from \<open>2^1024\<close>. The two zeros
  are one value: no modelled branch tells them apart (comparisons and truthiness treat
  \<open>-0\<close> as \<open>0\<close>). A \<open>Fin\<close> value that comes from outside (a stored field, a
  parameter) stands for itself; what is proved for every rational there holds for every
  double, and \<open>isDouble\<close> says when a value is one.
\<close>

datatype number = Fin rat | PInf | NInf | NaN

definition pow2 :: "int \<Rightarrow> rat" where
  "pow2 k = (if 0 \<le> k then 2 ^ nat k else 1 / 2 ^ nat (- k))"

text \<open>For \<open>x > 0\<close>, the exponent \<open>e\<close> with \<open>2^e \<le> x < 2^(e+1)\<close>: the difference of the
  bit lengths of numerator and denominator, or one less.\<close>

definition ilog2 :: "rat \<Rightarrow> int" where
  "ilog2 x =
     (let d = bitlen (fst (quotient_of x)) - bitlen (snd (quotient_of x))
      in if pow2 d \<le> x then d else d - 1)"

definition roundHalfEven :: "rat \<Rightarrow> int" where
  "roundHalfEven t =
     (let f = \<lfloor>t\<rfloor>; r = t - of_int f
      in if r < 1 / 2 then f else if 1 / 2 < r then f + 1 else if even f then f else f + 1)"

text \<open>Rounding to the binary64 grid around \<open>x\<close>, with an unbounded exponent above.\<close>

definition round64 :: "rat \<Rightarrow> rat" where
  "round64 x =
     (if x = 0 then 0
      else let q = pow2 (max (ilog2 \<bar>x\<bar> - 52) (- 1074))
           in of_int (roundHalfEven (x / q)) * q)"

text \<open>The binary64 value of an exact result; also the value of a decimal literal.\<close>

definition toNumber :: "rat \<Rightarrow> number" where
  "toNumber x =
     (let y = round64 x
      in if pow2 1024 \<le> y then PInf else if y \<le> - pow2 1024 then NInf else Fin y)"

fun js_add :: "number \<Rightarrow> number \<Rightarrow> number" where
  "js_add NaN y = NaN"
| "js_add x NaN = NaN"
| "js_add PInf NInf = NaN"
| "js_add NInf PInf = NaN"
| "js_add PInf y = PInf"
| "js_add x PInf = PInf"
| "js_add NInf y = NInf"
| "js_add x NInf = NInf"
| "js_add (Fin a) (Fin b) = toNumber (a + b)"

fun js_neg :: "number \<Rightarrow> number" where
  "js_neg NaN = NaN"
| "js_neg PInf = NInf"
| "js_neg NInf = PInf"
| "js_neg (Fin a) = Fin (- a)"

definition js_sub :: "number \<Rightarrow> number \<Rightarrow> number" where
  "js_sub x y = js_add x (js_neg y)"

fun js_mul :: "number \<Rightarrow> number \<Rightarrow> number" where
  "js_mul NaN y = NaN"
| "js_mul x NaN = NaN"
| "js_mul (Fin a) (Fin b) = toNumber (a * b)"
| "js_mul (Fin a) PInf = (if a = 0 then NaN else if 0 < a then PInf else NInf)"
| "js_mul (Fin a) NInf = (if a = 0 then NaN else if 0 < a then NInf else PInf)"
| "js_mul PInf (Fin b) = (if b = 0 then NaN else if 0 < b then PInf else NInf)"
| "js_mul NInf (Fin b) = (if b = 0 then NaN else if 0 < b then NInf else PInf)"
| "js_mul PInf PInf = PInf"
| "js_mul PInf NInf = NInf"
| "js_mul NInf PInf = NInf"
| "js_mul NInf NInf = PInf"

text \<open>\<open>x <= y\<close> and \<open>x < y\<close>; every comparison with \<open>NaN\<close> is false.\<close>

fun js_le :: "number \<Rightarrow> number \<Rightarrow> bool" where
  "js_le NaN y = False"
| "js_le x NaN = False"
| "js_le NInf y = True"
| "js_le x PInf = True"
| "js_le PInf y = False"
| "js_le x NInf = False"
| "js_le (Fin a) (Fin b) = (a \<le> b)"

fun js_lt :: "number \<Rightarrow> number \<Rightarrow> bool" where
  "js_lt NaN y = False"
| "js_lt x NaN = False"
| "js_lt PInf y = False"
| "js_lt x NInf = False"
| "js_lt NInf y = True"
| "js_lt x PInf = True"
| "js_lt (Fin a) (Fin b) = (a < b)"



section \<open>Data model\<close>

text \<open>
  The wallet ledger of the rental marketplace: \<open>WalletContext\<close> (deductCommission,
  rechargeWallet, checkAccountStatus, fetchTransactions), \<open>AuthContext\<close> (the cached
  \<open>userData\<close> and fetchUserData), \<open>BookingManagement\<close> (fetchBookings,
  handleBookingAction, confirmBookingAcceptance) and \<open>WalletManagement\<close>
  (handleRecharge).

  An optional field is an \<open>option\<close>. A Firestore \<open>Timestamp\<close> is a natural number.
  Display-only fields (email, phone, registrationDate, start and end date, message,
  renterName, propertyTitle, title) are left out of the records; no modelled function
  branches on them.
\<close>

datatype role = Owner | Renter

datatype account_status = Active | Suspended

datatype txn_type = Commission | Payment | Recharge

datatype booking_status = Pending | Accepted | Rejected

text \<open>The second parameter of handleBookingAction, \<open>'accepted' | 'rejected'\<close>.\<close>

datatype action = AcceptAction | RejectAction

text \<open>
  The description of a transaction is a template literal around numbers; the model keeps
  the numbers: the commission template holds \<open>commissionRate * 100\<close> and the rental
  amount, the recharge template of handleRecharge holds the amount.
\<close>

datatype description =
    CommissionDescription number number
  | RechargeDescription number
  | Text string

text \<open>A store call that rejects; every \<open>catch\<close> of the source treats all errors alike.\<close>

datatype error = WriteFailure

text \<open>What the user is shown at the end of a handler (the calls of \<open>toast\<close>).\<close>

datatype toast =
    AccountSuspendedToast
  | AcceptedToast
  | RejectedToast
  | CommissionAcceptedToast
  | ErrorToast
  | InvalidAmountToast
  | RechargeOkToast
  | RechargeErrorToast

record UserData =
  uid :: string
  name :: string
  role :: role
  walletBalance :: "number option"
  accountStatus :: "account_status option"
  lastTransactionDate :: "nat option"

record WalletTransaction =
  userId :: string
  txn_type :: txn_type
  amount :: number
  description :: description
  bookingId :: "string option"
  propertyId :: "string option"
  timestamp :: nat
  balanceAfter :: number

text \<open>A document of the \<open>bookings\<close> collection, and one of \<open>properties\<close>.\<close>

record booking_doc =
  renterId :: string
  ownerId :: string
  doc_propertyId :: string
  doc_status :: booking_status
  doc_timestamp :: nat

record property_doc =
  p_ownerId :: string
  pricePerMonth :: "number option"

text \<open>The \<open>Booking\<close> interface of BookingManagement: the document, its id, and the
  rental amount resolved by fetchBookings.\<close>

record Booking =
  b_id :: string
  b_renterId :: string
  b_propertyId :: string
  status :: booking_status
  b_timestamp :: nat
  rentalAmount :: "number option"

text \<open>
  The document store. \<open>users\<close> is keyed by uid; \<open>transactions\<close> is the append log
  (addDoc appends at the end); \<open>bookings\<close> and \<open>properties\<close> are association lists
  from document id to document, in the order a query returns them.
\<close>

record store =
  users :: "string \<rightharpoonup> UserData"
  transactions :: "WalletTransaction list"
  bookings :: "(string \<times> booking_doc) list"
  properties :: "(string \<times> property_doc) list"

text \<open>
  The client: the store it talks to, the state of AuthContext (\<open>currentUser\<close>, the
  cached \<open>userData\<close>), of WalletContext (\<open>txView\<close> is its \<open>transactions\<close> state,
  \<open>loading\<close>), of BookingManagement (\<open>bookingsState\<close>, \<open>selectedBooking\<close>,
  \<open>showCommissionDialog\<close>; its own loading flag and the input state of the recharge
  dialog are left out), and whether \<open>window.location.reload\<close> was requested.
\<close>

record world =
  db :: store
  currentUser :: "string option"
  userData :: "UserData option"
  txView :: "WalletTransaction list"
  loading :: bool
  bookingsState :: "Booking list"
  selectedBooking :: "Booking option"
  showCommissionDialog :: bool
  reloadRequested :: bool

text \<open>
  What the outside decides during one operation: which store calls reject, and what
  \<open>Timestamp.now()\<close> returns at the addDoc and at the updateDoc.
\<close>

record env =
  txn_add_fails :: bool
  user_update_fails :: bool
  txn_query_fails :: bool
  booking_update_fails :: bool
  user_read_fails :: bool
  bookings_fetch_fails :: bool
  now_add :: nat
  now_update :: nat

section \<open>JavaScript idioms\<close>

text \<open>Truthiness of a number: \<open>NaN\<close> and \<open>0\<close> are falsy; of an optional one:
  \<open>undefined\<close> is falsy too.\<close>

fun truthy_number :: "number \<Rightarrow> bool" where
  "truthy_number NaN = False"
| "truthy_number (Fin a) = (a \<noteq> 0)"
| "truthy_number x = True"

definition truthy :: "number option \<Rightarrow> bool" where
  "truthy x = (case x of None \<Rightarrow> False | Some v \<Rightarrow> truthy_number v)"

text \<open>\<open>x || 0\<close> on an optional number: a falsy \<open>x\<close> gives \<open>0\<close>.\<close>

definition or0 :: "number option \<Rightarrow> number" where
  "or0 x = (case x of None \<Rightarrow> Fin 0 | Some v \<Rightarrow> if truthy_number v then v else Fin 0)"

section \<open>Store operations\<close>

definition addDoc_transactions :: "env \<Rightarrow> WalletTransaction \<Rightarrow> store \<Rightarrow> error + store" where
  "addDoc_transactions e t s =
     (if txn_add_fails e then Inl WriteFailure
      else Inr (s\<lparr>transactions := transactions s @ [t]\<rparr>))"

text \<open>updateDoc rejects when the document does not exist.\<close>

definition updateDoc_users ::
  "env \<Rightarrow> string \<Rightarrow> (UserData \<Rightarrow> UserData) \<Rightarrow> store \<Rightarrow> error + store" where
  "updateDoc_users e u f s =
     (if user_update_fails e then Inl WriteFailure
      else case users s u of
             None \<Rightarrow> Inl WriteFailure
           | Some d \<Rightarrow> Inr (s\<lparr>users := (users s)(u \<mapsto> f d)\<rparr>))"

definition set_status :: "string \<Rightarrow> booking_status \<Rightarrow> string \<times> booking_doc \<Rightarrow> string \<times> booking_doc" where
  "set_status k st kd = (if fst kd = k then (fst kd, (snd kd)\<lparr>doc_status := st\<rparr>) else kd)"

definition updateDoc_bookings ::
  "env \<Rightarrow> string \<Rightarrow> booking_status \<Rightarrow> store \<Rightarrow> error + store" where
  "updateDoc_bookings e k st s =
     (if booking_update_fails e then Inl WriteFailure
      else case map_of (bookings s) k of
             None \<Rightarrow> Inl WriteFailure
           | Some d \<Rightarrow> Inr (s\<lparr>bookings := map (set_status k st) (bookings s)\<rparr>))"

definition status_of_action :: "action \<Rightarrow> booking_status" where
  "status_of_action a = (case a of AcceptAction \<Rightarrow> Accepted | RejectAction \<Rightarrow> Rejected)"

section \<open>AuthContext\<close>


section \<open>WalletContext\<close>

text \<open>The guard \<open>!currentUser || userData?.role !== 'owner'\<close>, negated.\<close>

definition is_owner :: "world \<Rightarrow> bool" where
  "is_owner w =
     (case currentUser w of
        None \<Rightarrow> False
      | Some u \<Rightarrow> (case userData w of None \<Rightarrow> False | Some d \<Rightarrow> role d = Owner))"

text \<open>fetchTransactions: the owner's transactions, newest first, at most 50; a failed
  query is caught and leaves the view as it was.\<close>

definition fetchTransactions :: "env \<Rightarrow> world \<Rightarrow> world" where
  "fetchTransactions e w =
     (if \<not> is_owner w then w
      else if txn_query_fails e then w\<lparr>loading := False\<rparr>
      else w\<lparr>txView :=
               take 50 (rev (sort_key timestamp
                 (filter (\<lambda>t. Some (userId t) = currentUser w) (transactions (db w))))),
             loading := False\<rparr>)"

text \<open>The literal \<open>0.025\<close>: the binary64 value nearest to \<open>25/1000\<close>, which is not
  \<open>1/40\<close>.\<close>

definition commissionRate :: number where
  "commissionRate = toNumber (25 / 1000)"

definition deductCommission ::
  "env \<Rightarrow> string \<Rightarrow> string \<Rightarrow> number \<Rightarrow> world \<Rightarrow> (error + unit) \<times> world" where
  "deductCommission e bookingId' propertyId' rentalAmount' w =
     (case currentUser w of
        None \<Rightarrow> (Inr (), w)
      | Some u \<Rightarrow>
        (case userData w of
           None \<Rightarrow> (Inr (), w)
         | Some d \<Rightarrow>
           if role d \<noteq> Owner then (Inr (), w)
           else
            (let commissionAmount = js_mul rentalAmount' commissionRate;
                 currentBalance = or0 (walletBalance d);
                 newBalance = js_sub currentBalance commissionAmount
             in (case addDoc_transactions e
                       \<lparr>userId = u, txn_type = Commission, amount = js_neg commissionAmount,
                        description = CommissionDescription (js_mul commissionRate (Fin 100)) rentalAmount',
                        bookingId = Some bookingId', propertyId = Some propertyId',
                        timestamp = now_add e, balanceAfter = newBalance\<rparr> (db w) of
                  Inl err \<Rightarrow> (Inl err, w)
                | Inr s1 \<Rightarrow>
                  (case updateDoc_users e u
                          (\<lambda>x. if js_le newBalance (Fin (- 100))
                                then x\<lparr>walletBalance := Some newBalance,
                                       lastTransactionDate := Some (now_update e),
                                       accountStatus := Some Suspended\<rparr>
                                else x\<lparr>walletBalance := Some newBalance,
                                       lastTransactionDate := Some (now_update e)\<rparr>) s1 of
                     Inl err \<Rightarrow> (Inl err, w\<lparr>db := s1\<rparr>)
                   | Inr s2 \<Rightarrow> (Inr (), fetchTransactions e (w\<lparr>db := s2\<rparr>)))))))"

definition rechargeWallet ::
  "env \<Rightarrow> number \<Rightarrow> description \<Rightarrow> world \<Rightarrow> (error + unit) \<times> world" where
  "rechargeWallet e amount' description' w =
     (case currentUser w of
        None \<Rightarrow> (Inr (), w)
      | Some u \<Rightarrow>
        (case userData w of
           None \<Rightarrow> (Inr (), w)
         | Some d \<Rightarrow>
           if role d \<noteq> Owner then (Inr (), w)
           else
            (let currentBalance = or0 (walletBalance d);
                 newBalance = js_add currentBalance amount'
             in (case addDoc_transactions e
                       \<lparr>userId = u, txn_type = Recharge, amount = amount',
                        description = description',
                        bookingId = None, propertyId = None,
                        timestamp = now_add e, balanceAfter = newBalance\<rparr> (db w) of
                  Inl err \<Rightarrow> (Inl err, w)
                | Inr s1 \<Rightarrow>
                  (case updateDoc_users e u
                          (\<lambda>x. if js_lt (Fin 0) newBalance
                                then x\<lparr>walletBalance := Some newBalance,
                                       lastTransactionDate := Some (now_update e),
                                       accountStatus := Some Active\<rparr>
                                else x\<lparr>walletBalance := Some newBalance,
                                       lastTransactionDate := Some (now_update e)\<rparr>) s1 of
                     Inl err \<Rightarrow> (Inl err, w\<lparr>db := s1\<rparr>)
                   | Inr s2 \<Rightarrow> (Inr (), fetchTransactions e (w\<lparr>db := s2\<rparr>)))))))"

text \<open>checkAccountStatus reads the user document; a read that throws is caught and
  answered \<open>true\<close>, and so is a missing document.\<close>

definition checkAccountStatus :: "env \<Rightarrow> world \<Rightarrow> bool" where
  "checkAccountStatus e w =
     (case currentUser w of
        None \<Rightarrow> True
      | Some u \<Rightarrow>
        (case userData w of
           None \<Rightarrow> True
         | Some d \<Rightarrow>
           if role d \<noteq> Owner then True
           else if user_read_fails e then True
           else (case users (db w) u of
                   Some data \<Rightarrow> accountStatus data = Some Active
                 | None \<Rightarrow> True)))"

section \<open>BookingManagement\<close>

text \<open>
  fetchBookings: the properties of the current user as a map from id to document, the
  bookings whose \<open>ownerId\<close> is the current user, each with the rental amount
  \<open>propertyData?.pricePerMonth || 0\<close>, sorted newest first (the sort is stable). Any
  read that throws is caught and leaves the list as it was.
\<close>

definition resolveRentalAmount :: "(string \<rightharpoonup> property_doc) \<Rightarrow> string \<Rightarrow> number" where
  "resolveRentalAmount propertiesMap pid =
     or0 (case propertiesMap pid of None \<Rightarrow> None | Some propertyData \<Rightarrow> pricePerMonth propertyData)"

definition toBooking :: "(string \<rightharpoonup> property_doc) \<Rightarrow> string \<times> booking_doc \<Rightarrow> Booking" where
  "toBooking propertiesMap kd =
     \<lparr>b_id = fst kd, b_renterId = renterId (snd kd), b_propertyId = doc_propertyId (snd kd),
      status = doc_status (snd kd), b_timestamp = doc_timestamp (snd kd),
      rentalAmount = Some (resolveRentalAmount propertiesMap (doc_propertyId (snd kd)))\<rparr>"

definition fetchBookings :: "env \<Rightarrow> world \<Rightarrow> world" where
  "fetchBookings e w =
     (case currentUser w of
        None \<Rightarrow> w
      | Some u \<Rightarrow>
        if bookings_fetch_fails e then w
        else
          (let propertiesMap = map_of (filter (\<lambda>kp. p_ownerId (snd kp) = u) (properties (db w)));
               bookingsData = map (toBooking propertiesMap)
                                (filter (\<lambda>kd. ownerId (snd kd) = u) (bookings (db w)))
           in w\<lparr>bookingsState := sort_key (\<lambda>b. - int (b_timestamp b)) bookingsData\<rparr>))"

definition setBookingStatus :: "string \<Rightarrow> booking_status \<Rightarrow> Booking \<Rightarrow> Booking" where
  "setBookingStatus k st b = (if b_id b = k then b\<lparr>status := st\<rparr> else b)"

text \<open>The tail of handleBookingAction, "for rejection or if no commission needed".\<close>

definition writeBookingStatus :: "env \<Rightarrow> string \<Rightarrow> action \<Rightarrow> world \<Rightarrow> toast option \<times> world" where
  "writeBookingStatus e k a w =
     (case updateDoc_bookings e k (status_of_action a) (db w) of
        Inl err \<Rightarrow> (Some ErrorToast, w)
      | Inr s \<Rightarrow>
          (Some (if a = AcceptAction then AcceptedToast else RejectedToast),
           w\<lparr>db := s,
             bookingsState := map (setBookingStatus k (status_of_action a)) (bookingsState w)\<rparr>))"

definition handleBookingAction :: "env \<Rightarrow> string \<Rightarrow> action \<Rightarrow> world \<Rightarrow> toast option \<times> world" where
  "handleBookingAction e k a w =
     (let booking = find (\<lambda>b. b_id b = k) (bookingsState w) in
      if a = AcceptAction then
        (let isAccountActive = checkAccountStatus e w in
         if \<not> isAccountActive
            \<or> (case userData w of None \<Rightarrow> False | Some d \<Rightarrow> accountStatus d = Some Suspended)
         then (Some AccountSuspendedToast, w)
         else
           (case booking of
              None \<Rightarrow> writeBookingStatus e k a w
            | Some b \<Rightarrow>
                if truthy (rentalAmount b)
                then (None, w\<lparr>selectedBooking := Some b, showCommissionDialog := True\<rparr>)
                else writeBookingStatus e k a w))
      else writeBookingStatus e k a w)"

text \<open>
  confirmBookingAcceptance: deductCommission first, called when the selected booking's
  rental amount is truthy; an error thrown there skips the booking write and lands in the
  \<open>catch\<close>, which shows the error toast.
\<close>

definition confirmBookingAcceptance :: "env \<Rightarrow> world \<Rightarrow> toast option \<times> world" where
  "confirmBookingAcceptance e w =
     (case selectedBooking w of
        None \<Rightarrow> (None, w)
      | Some sb \<Rightarrow>
        (case (if truthy (rentalAmount sb)
               then deductCommission e (b_id sb) (b_propertyId sb) (or0 (rentalAmount sb)) w
               else (Inr (), w)) of
           (Inl err, w1) \<Rightarrow> (Some ErrorToast, w1)
         | (Inr ok, w1) \<Rightarrow>
           (case updateDoc_bookings e (b_id sb) Accepted (db w1) of
              Inl err \<Rightarrow> (Some ErrorToast, w1)
            | Inr s \<Rightarrow>
                (Some CommissionAcceptedToast,
                 w1\<lparr>db := s,
                    bookingsState := map (setBookingStatus (b_id sb) Accepted) (bookingsState w),
                    showCommissionDialog := False,
                    selectedBooking := None,
                    reloadRequested := True\<rparr>))))"

section \<open>WalletManagement\<close>

text \<open>
  handleRecharge: \<open>parsed\<close> is the result of \<open>parseFloat(rechargeAmount)\<close>, a number,
  \<open>NaN\<close> when the text is not one. The guard is \<open>!amount || amount <= 0\<close>.
\<close>

definition handleRecharge :: "env \<Rightarrow> number \<Rightarrow> world \<Rightarrow> toast option \<times> world" where
  "handleRecharge e parsed w =
     (if \<not> truthy_number parsed \<or> js_le parsed (Fin 0) then (Some InvalidAmountToast, w)
      else
        (case rechargeWallet e parsed (RechargeDescription parsed) w of
           (Inl err, w1) \<Rightarrow> (Some RechargeErrorToast, w1)
         | (Inr ok, w1) \<Rightarrow> (Some RechargeOkToast, w1\<lparr>reloadRequested := True\<rparr>)))"

section \<open>Call sequences\<close>





section \<open>Concrete accounts and stores\<close>

definition landlord :: "number option \<Rightarrow> account_status option \<Rightarrow> UserData" where
  "landlord b st =
     \<lparr>uid = ''L1'', name = ''landlord'', role = Owner, walletBalance = b,
      accountStatus = st, lastTransactionDate = Some 0\<rparr>"

definition renter :: UserData where
  "renter =
     \<lparr>uid = ''L1'', name = ''renter'', role = Renter, walletBalance = None,
      accountStatus = None, lastTransactionDate = None\<rparr>"

definition env_ok :: env where
  "env_ok =
     \<lparr>txn_add_fails = False, user_update_fails = False, txn_query_fails = False,
      booking_update_fails = False, user_read_fails = False, bookings_fetch_fails = False,
      now_add = 7, now_update = 8\<rparr>"

definition booking1 :: booking_doc where
  "booking1 =
     \<lparr>renterId = ''R1'', ownerId = ''L1'', doc_propertyId = ''P1'',
      doc_status = Pending, doc_timestamp = 5\<rparr>"

definition store_of :: "UserData \<Rightarrow> (string \<times> property_doc) list \<Rightarrow> store" where
  "store_of d ps =
     \<lparr>users = [''L1'' \<mapsto> d], transactions = [], bookings = [(''B1'', booking1)],
      properties = ps\<rparr>"

text \<open>A client signed in as \<open>L1\<close>: the stored user document, the cached one, the
  properties.\<close>

definition world_of :: "UserData \<Rightarrow> UserData \<Rightarrow> (string \<times> property_doc) list \<Rightarrow> world" where
  "world_of stored cached ps =
     \<lparr>db = store_of stored ps, currentUser = Some ''L1'', userData = Some cached,
      txView = [], loading = False, bookingsState = [], selectedBooking = None,
      showCommissionDialog = False, reloadRequested = False\<rparr>"

definition env_add_fails :: env where
  "env_add_fails = env_ok\<lparr>txn_add_fails := True\<rparr>"

definition env_read_fails :: env where
  "env_read_fails = env_ok\<lparr>user_read_fails := True\<rparr>"

definition selected1 :: Booking where
  "selected1 =
     \<lparr>b_id = ''B1'', b_renterId = ''R1'', b_propertyId = ''P1'', status = Pending,
      b_timestamp = 5, rentalAmount = Some (Fin 40)\<rparr>"



text \<open>An owner with balance \<open>b\<close> and status \<open>st\<close>, store and cache in step.\<close>

definition owner_world :: "number \<Rightarrow> account_status \<Rightarrow> world" where
  "owner_world b st = world_of (landlord (Some b) (Some st)) (landlord (Some b) (Some st)) []"

text \<open>
  The booking list loaded while property P1 of booking B1 had the price 40, and the same
  client after the property document was deleted from the store.
\<close>

definition priced_world :: world where
  "priced_world =
     fetchBookings env_ok
       (world_of (landlord (Some (Fin 0)) (Some Active)) (landlord (Some (Fin 0)) (Some Active))
          [(''P1'', \<lparr>p_ownerId = ''L1'', pricePerMonth = Some (Fin 40)\<rparr>)])"

definition deleted_world :: world where
  "deleted_world = priced_world\<lparr>db := (db priced_world)\<lparr>properties := []\<rparr>\<rparr>"

text \<open>An owner whose balance is the double -18.849999999999998.\<close>

definition boundary_world :: world where
  "boundary_world = owner_world (Fin (- (5305803310995865 / 281474976710656))) Active"


section \<open>Properties of the rounding\<close>

lemma pow2_powi: "pow2 k = 2 powi k"
  by (simp add: pow2_def power_int_def field_simps)

lemma pow2_pos: "0 < pow2 k"
  by (simp add: pow2_def)

lemma pow2_mono: "a \<le> b \<Longrightarrow> pow2 a \<le> pow2 b"
  by (simp add: pow2_powi power_int_increasing)



lemma quotient_bitlen_bounds:
  assumes "0 < x"
  shows "pow2 (bitlen (fst (quotient_of x)) - bitlen (snd (quotient_of x)) - 1) \<le> x"
    and "x < pow2 (bitlen (fst (quotient_of x)) - bitlen (snd (quotient_of x)) + 1)"
proof -
  obtain p q where pq: "quotient_of x = (p, q)"
    by (cases "quotient_of x") auto
  have q: "0 < q" using pq by (rule quotient_of_denom_pos)
  have x: "x = of_int p / of_int q" using pq by (rule quotient_of_div)
  have p: "0 < p"
    using assms q by (simp add: x zero_less_divide_iff)
  let ?bp = "bitlen p" and ?bq = "bitlen q"
  have bp: "1 \<le> ?bp" using bitlen_eq_zero_iff [of p] bitlen_nonneg [of p] p by linarith
  have bq: "1 \<le> ?bq" using bitlen_eq_zero_iff [of q] bitlen_nonneg [of q] q by linarith
  have p_lo: "(2::rat) ^ nat (?bp - 1) \<le> of_int p"
  proof -
    have "2 ^ nat (?bp - 1) \<le> p" using bitlen_bounds [OF p] by simp
    then have "(of_int (2 ^ nat (?bp - 1)) :: rat) \<le> of_int p" by (simp only: of_int_le_iff)
    then show ?thesis by simp
  qed
  have p_hi: "of_int p < (2::rat) ^ nat ?bp"
  proof -
    have "p < 2 ^ nat ?bp" using bitlen_bounds [OF p] by simp
    then have "(of_int p :: rat) < of_int (2 ^ nat ?bp)" by (simp only: of_int_less_iff)
    then show ?thesis by simp
  qed
  have q_lo: "(2::rat) ^ nat (?bq - 1) \<le> of_int q"
  proof -
    have "2 ^ nat (?bq - 1) \<le> q" using bitlen_bounds [OF q] by simp
    then have "(of_int (2 ^ nat (?bq - 1)) :: rat) \<le> of_int q" by (simp only: of_int_le_iff)
    then show ?thesis by simp
  qed
  have q_hi: "of_int q \<le> (2::rat) ^ nat ?bq"
  proof -
    have "q \<le> 2 ^ nat ?bq" using bitlen_bounds [OF q] by simp
    then have "(of_int q :: rat) \<le> of_int (2 ^ nat ?bq)" by (simp only: of_int_le_iff)
    then show ?thesis by simp
  qed
  have "pow2 (?bp - ?bq - 1) = 2 powi (?bp - 1) / 2 powi ?bq"
    by (simp add: pow2_powi power_int_diff [symmetric] algebra_simps)
  also have "\<dots> = 2 ^ nat (?bp - 1) / 2 ^ nat ?bq"
    using bp bq by (simp add: power_int_def)
  also have "\<dots> \<le> of_int p / of_int q"
    using p_lo q_hi q p by (intro frac_le) simp_all
  finally have "pow2 (?bp - ?bq - 1) \<le> x"
    unfolding x .
  then show "pow2 (bitlen (fst (quotient_of x)) - bitlen (snd (quotient_of x)) - 1) \<le> x"
    by (simp add: pq)
  have "of_int p / of_int q < (2::rat) ^ nat ?bp / 2 ^ nat (?bq - 1)"
    using p_hi q_lo q p by (intro frac_less) simp_all
  also have "\<dots> = 2 powi ?bp / 2 powi (?bq - 1)"
    using bp bq by (simp add: power_int_def)
  also have "\<dots> = pow2 (?bp - ?bq + 1)"
    by (simp add: pow2_powi power_int_diff [symmetric] algebra_simps)
  finally have "x < pow2 (?bp - ?bq + 1)"
    unfolding x .
  then show "x < pow2 (bitlen (fst (quotient_of x)) - bitlen (snd (quotient_of x)) + 1)"
    by (simp add: pq)
qed

lemma ilog2_bounds:
  assumes "0 < x"
  shows "pow2 (ilog2 x) \<le> x" and "x < pow2 (ilog2 x + 1)"
proof -
  let ?d = "bitlen (fst (quotient_of x)) - bitlen (snd (quotient_of x))"
  note b = quotient_bitlen_bounds [OF assms]
  show "pow2 (ilog2 x) \<le> x"
    using b(1) by (simp add: ilog2_def Let_def)
  show "x < pow2 (ilog2 x + 1)"
    using b(2) by (auto simp: ilog2_def Let_def)
qed


lemma pow2_strict_mono: "a < b \<Longrightarrow> pow2 a < pow2 b"
  by (simp add: pow2_powi power_int_strict_increasing)

lemma ilog2_unique:
  assumes "pow2 e \<le> x" and "x < pow2 (e + 1)"
  shows "ilog2 x = e"
proof -
  have x: "0 < x" using assms(1) pow2_pos [of e] by linarith
  note b = ilog2_bounds [OF x]
  have "\<not> ilog2 x < e"
  proof
    assume "ilog2 x < e"
    then have "pow2 (ilog2 x + 1) \<le> pow2 e" by (intro pow2_mono) simp
    then show False using b(2) assms(1) by linarith
  qed
  moreover have "\<not> e < ilog2 x"
  proof
    assume "e < ilog2 x"
    then have "pow2 (e + 1) \<le> pow2 (ilog2 x)" by (intro pow2_mono) simp
    then show False using b(1) assms(2) by linarith
  qed
  ultimately show ?thesis by linarith
qed

lemma roundHalfEven_nearest:
  assumes "\<bar>t - of_int n\<bar> < 1 / 2 \<or> \<bar>t - of_int n\<bar> = 1 / 2 \<and> even n"
  shows "roundHalfEven t = n"
proof -
  have m: "of_int (n - 1) = (of_int n :: rat) - 1" by simp
  consider (below) "t - of_int n < 0" | (at) "t = of_int n"
    | (above) "0 < t - of_int n" "t - of_int n < 1 / 2"
    | (tie_up) "t - of_int n = 1 / 2" "even n"
    using assms by (cases "t - of_int n < 0"; cases "t = of_int n") (auto simp: abs_if)
  then show ?thesis
  proof cases
    case at
    then show ?thesis by (simp add: roundHalfEven_def Let_def)
  next
    case above
    have "\<lfloor>t\<rfloor> = n"
    proof (rule floor_unique)
      show "of_int n \<le> t" using above by linarith
      show "t < of_int n + 1" using above by linarith
    qed
    then show ?thesis using above by (simp add: roundHalfEven_def Let_def)
  next
    case tie_up
    have "\<lfloor>t\<rfloor> = n"
    proof (rule floor_unique)
      show "of_int n \<le> t" using tie_up by linarith
      show "t < of_int n + 1" using tie_up by linarith
    qed
    then show ?thesis using tie_up by (simp add: roundHalfEven_def Let_def)
  next
    case below
    then have lo: "- (1 / 2) \<le> t - of_int n" using assms by (auto simp: abs_if)
    have f: "\<lfloor>t\<rfloor> = n - 1"
    proof (rule floor_unique)
      show "of_int (n - 1) \<le> t" unfolding m using lo by linarith
      show "t < of_int (n - 1) + 1" unfolding m using below by linarith
    qed
    have r: "t - of_int \<lfloor>t\<rfloor> = t - of_int n + 1" unfolding f m by simp
    show ?thesis
    proof (cases "t - of_int n = - (1 / 2)")
      case True
      then have "even n" using assms by (auto simp: abs_if)
      then have "odd (n - 1)" by simp
      moreover have "t - of_int \<lfloor>t\<rfloor> = 1 / 2" using r True by simp
      ultimately show ?thesis using f by (simp add: roundHalfEven_def Let_def)
    next
      case False
      then have "1 / 2 < t - of_int \<lfloor>t\<rfloor>" using r lo by linarith
      then show ?thesis using f by (simp add: roundHalfEven_def Let_def)
    qed
  qed
qed

text \<open>
  A rounding with its certificate: the exponent \<open>e\<close> of \<open>x\<close> in the normal range, and the
  significand \<open>n\<close>, nearer than half a unit or the even one of a tie, with the result well
  below the overflow threshold.
\<close>

lemma toNumber_cert:
  assumes "pow2 e \<le> \<bar>x\<bar>" and "\<bar>x\<bar> < pow2 (e + 1)" and "- 1022 \<le> e"
    and "\<bar>x / pow2 (e - 52) - of_int n\<bar> < 1 / 2
         \<or> \<bar>x / pow2 (e - 52) - of_int n\<bar> = 1 / 2 \<and> even n"
    and "\<bar>of_int n * pow2 (e - 52)\<bar> < 2 ^ 64"
  shows "toNumber x = Fin (of_int n * pow2 (e - 52))"
proof -
  have x0: "x \<noteq> 0" using assms(1) pow2_pos [of e] by auto
  have e: "ilog2 \<bar>x\<bar> = e" using assms(1,2) by (rule ilog2_unique)
  have k: "max (e - 52) (- 1074) = e - 52" using assms(3) by simp
  have r: "round64 x = of_int n * pow2 (e - 52)"
    using x0 roundHalfEven_nearest [OF assms(4)] by (simp add: round64_def Let_def e k)
  have "(2::rat) ^ 64 = pow2 64" by (simp add: pow2_def)
  also have "\<dots> \<le> pow2 1024" by (rule pow2_mono) simp
  finally have big: "(2::rat) ^ 64 \<le> pow2 1024" .
  have "\<not> pow2 1024 \<le> of_int n * pow2 (e - 52)"
    and "\<not> of_int n * pow2 (e - 52) \<le> - pow2 1024"
    using assms(5) big by linarith+
  then show ?thesis by (simp add: toNumber_def Let_def r)
qed

lemma toNumber_zero: "toNumber 0 = Fin 0"
  using pow2_pos [of 1024] by (simp add: toNumber_def round64_def Let_def)








section \<open>Values of the concrete runs\<close>

text \<open>Each value comes with its certificate: the exponent and the significand.\<close>

lemma commissionRate_value: "commissionRate = Fin (3602879701896397 / 144115188075855872)"
  using toNumber_cert [of "- 6" "25 / 1000" "7205759403792794"]
  by (simp add: pow2_def commissionRate_def)

lemma commission_40: "js_mul (Fin 40) commissionRate = Fin 1"
  using toNumber_cert [of "0" "40 * (3602879701896397 / 144115188075855872)" "4503599627370496"]
  by (simp add: pow2_def commissionRate_value)

lemma sub_m99_1: "js_sub (Fin (- 99)) (Fin 1) = Fin (- 100)"
  using toNumber_cert [of "6" "(- 99) + - 1" "- 7036874417766400"]
  by (simp add: pow2_def js_sub_def)

lemma sub_0_1: "js_sub (Fin 0) (Fin 1) = Fin (- 1)"
  using toNumber_cert [of "0" "0 + - 1" "- 4503599627370496"]
  by (simp add: pow2_def js_sub_def)

lemma commission_2567: "js_mul (Fin 2567) commissionRate = Fin (4515914157601587 / 70368744177664)"
  using toNumber_cert [of "6" "2567 * (3602879701896397 / 144115188075855872)" "4515914157601587"]
  by (simp add: pow2_def commissionRate_value)

lemma commission_1416: "js_mul (Fin 1416) commissionRate = Fin (4982107087778611 / 140737488355328)"
  using toNumber_cert [of "5" "1416 * (3602879701896397 / 144115188075855872)" "4982107087778611"]
  by (simp add: pow2_def commissionRate_value)

lemma commission_17: "js_mul (Fin 17) commissionRate = Fin (1914029841632461 / 4503599627370496)"
  using toNumber_cert [of "- 2" "17 * (3602879701896397 / 144115188075855872)" "7656119366529844"]
  by (simp add: pow2_def commissionRate_value)

lemma rounded_step_1: "js_sub (Fin 0) (Fin (4515914157601587 / 70368744177664)) = Fin (- (4515914157601587 / 70368744177664))"
  using toNumber_cert [of "6" "0 + - (4515914157601587 / 70368744177664)" "- 4515914157601587"]
  by (simp add: pow2_def js_sub_def)

lemma rounded_step_2: "js_sub (Fin (- (4515914157601587 / 70368744177664))) (Fin (4982107087778611 / 140737488355328)) = Fin (- (1751741925372723 / 17592186044416))"
  using toNumber_cert [of "6" "(- (4515914157601587 / 70368744177664)) + - (4982107087778611 / 140737488355328)" "- 7006967701490892"]
  by (simp add: pow2_def js_sub_def)

lemma rounded_step_3: "js_sub (Fin (- (1751741925372723 / 17592186044416))) (Fin (1914029841632461 / 4503599627370496)) = Fin (- (7036874417766399 / 70368744177664))"
  using toNumber_cert [of "6" "(- (1751741925372723 / 17592186044416)) + - (1914029841632461 / 4503599627370496)" "- 7036874417766399"]
  by (simp add: pow2_def js_sub_def)

lemma commission_3246: "js_mul (Fin 3246) commissionRate = Fin (2855211795008717 / 35184372088832)"
  using toNumber_cert [of "6" "3246 * (3602879701896397 / 144115188075855872)" "5710423590017434"]
  by (simp add: pow2_def commissionRate_value)

lemma sub_boundary: "js_sub (Fin (- (5305803310995865 / 281474976710656))) (Fin (2855211795008717 / 35184372088832)) = Fin (- 100)"
  using toNumber_cert [of "6" "(- (5305803310995865 / 281474976710656)) + - (2855211795008717 / 35184372088832)" "- 7036874417766400"]
  by (simp add: pow2_def js_sub_def)

lemma toNumber_m5: "toNumber (- 5) = Fin (- 5)"
  using toNumber_cert [of "2" "(- 5)" "- 5629499534213120"]
  by (simp add: pow2_def)

lemma toNumber_m100: "toNumber (- 100) = Fin (- 100)"
  using toNumber_cert [of "6" "(- 100)" "- 7036874417766400"]
  by (simp add: pow2_def)

lemma toNumber_100: "toNumber 100 = Fin 100"
  using toNumber_cert [of "6" "100" "7036874417766400"]
  by (simp add: pow2_def)

section \<open>Unfolding rules\<close>

lemmas concrete_defs = landlord_def renter_def env_ok_def env_add_fails_def env_read_fails_def
  booking1_def store_of_def world_of_def selected1_def owner_world_def boundary_world_def

lemmas ledger_defs = deductCommission_def rechargeWallet_def addDoc_transactions_def
  updateDoc_users_def fetchTransactions_def is_owner_def Let_def

lemmas number_facts = commission_40 sub_m99_1 sub_0_1 commission_2567 commission_1416
  commission_17 rounded_step_1 rounded_step_2 rounded_step_3 commission_3246 sub_boundary
  toNumber_zero toNumber_m5 toNumber_m100 toNumber_100 or0_def truthy_def

section \<open>The ledger: one operation\<close>

text \<open>
  C10. A call of deductCommission or rechargeWallet by a caller who is not signed in, has
  no cached user record, or whose cached role is not owner returns normally and changes
  nothing: no transaction, no error, the same store and the same client state.
\<close>

theorem non_owner_noop:
  "\<not> is_owner w \<Longrightarrow>
   deductCommission e b p r w = (Inr (), w) \<and> rechargeWallet e a descr w = (Inr (), w)"
  by (auto simp: is_owner_def deductCommission_def rechargeWallet_def split: option.splits)

text \<open>Witness for C10: a signed-in renter.\<close>

theorem non_owner_noop_witness:
  "\<not> is_owner (world_of renter renter [])
   \<and> deductCommission env_ok ''B1'' ''P1'' (Fin 40) (world_of renter renter [])
       = (Inr (), world_of renter renter [])
   \<and> rechargeWallet env_ok (Fin 500) (RechargeDescription (Fin 500)) (world_of renter renter [])
       = (Inr (), world_of renter renter [])"
proof -
  have h: "\<not> is_owner (world_of renter renter [])"
    by (simp add: is_owner_def world_of_def renter_def)
  show ?thesis
    using h non_owner_noop [OF h, of env_ok "''B1''" "''P1''" "Fin 40" "Fin 500"
                              "RechargeDescription (Fin 500)"]
    by simp
qed

text \<open>
  C2. A successful deductCommission by an owner stores the new balance, the cached
  balance minus the rental amount times 0.025 as the code computes it in binary64, and
  sets the stored accountStatus to suspended exactly when that new balance is at most
  -100; otherwise the stored status is what it was, so an account that was suspended stays
  suspended.
\<close>

theorem deductCommission_suspends_iff:
  assumes "currentUser w = Some u" and "userData w = Some d" and "role d = Owner"
    and "users (db w) u = Some acc"
    and "deductCommission e b p r w = (Inr (), w')"
  shows "map_option walletBalance (users (db w') u)
           = Some (Some (js_sub (or0 (walletBalance d)) (js_mul r commissionRate)))
       \<and> map_option accountStatus (users (db w') u)
           = Some (if js_le (js_sub (or0 (walletBalance d)) (js_mul r commissionRate)) (Fin (- 100))
                   then Some Suspended else accountStatus acc)"
  using assms
  by (auto simp: ledger_defs split: if_splits sum.splits option.splits)

text \<open>
  Witness for C2: balance -99 and rental amount 40 give exactly -100 and suspend; so do
  the balance -18.849999999999998 and the rental amount 3246, whose binary64 result is
  -100 although the exact difference is above it.
\<close>

theorem deductCommission_suspends_iff_witness:
  "map_option walletBalance
     (users (db (snd (deductCommission env_ok ''B1'' ''P1'' (Fin 40)
        (owner_world (Fin (- 99)) Active)))) ''L1'') = Some (Some (Fin (- 100)))
   \<and> map_option accountStatus
     (users (db (snd (deductCommission env_ok ''B1'' ''P1'' (Fin 40)
        (owner_world (Fin (- 99)) Active)))) ''L1'') = Some (Some Suspended)
   \<and> map_option walletBalance
     (users (db (snd (deductCommission env_ok ''B1'' ''P1'' (Fin 3246) boundary_world))) ''L1'')
       = Some (Some (Fin (- 100)))
   \<and> map_option accountStatus
     (users (db (snd (deductCommission env_ok ''B1'' ''P1'' (Fin 3246) boundary_world))) ''L1'')
       = Some (Some Suspended)
   \<and> - 100 < - (5305803310995865 / 281474976710656) - 3246 * (25 / 1000 :: rat)"
proof -
  let ?w1 = "owner_world (Fin (- 99)) Active"
  let ?r1 = "deductCommission env_ok ''B1'' ''P1'' (Fin 40) ?w1"
  let ?r2 = "deductCommission env_ok ''B1'' ''P1'' (Fin 3246) boundary_world"
  have s1: "?r1 = (Inr (), snd ?r1)"
    by (simp add: concrete_defs ledger_defs number_facts)
  have s2: "?r2 = (Inr (), snd ?r2)"
    by (simp add: concrete_defs ledger_defs number_facts)
  have a:
    "map_option walletBalance (users (db (snd ?r1)) ''L1'')
       = Some (Some (js_sub (or0 (walletBalance (landlord (Some (Fin (- 99))) (Some Active))))
                            (js_mul (Fin 40) commissionRate)))
     \<and> map_option accountStatus (users (db (snd ?r1)) ''L1'')
       = Some (if js_le (js_sub (or0 (walletBalance (landlord (Some (Fin (- 99))) (Some Active))))
                                (js_mul (Fin 40) commissionRate)) (Fin (- 100))
               then Some Suspended
               else accountStatus (landlord (Some (Fin (- 99))) (Some Active)))"
    by (rule deductCommission_suspends_iff [OF _ _ _ _ s1]) (simp_all add: concrete_defs)
  have b:
    "map_option walletBalance (users (db (snd ?r2)) ''L1'')
       = Some (Some (js_sub (or0 (walletBalance
            (landlord (Some (Fin (- (5305803310995865 / 281474976710656)))) (Some Active))))
                            (js_mul (Fin 3246) commissionRate)))
     \<and> map_option accountStatus (users (db (snd ?r2)) ''L1'')
       = Some (if js_le (js_sub (or0 (walletBalance
            (landlord (Some (Fin (- (5305803310995865 / 281474976710656)))) (Some Active))))
                                (js_mul (Fin 3246) commissionRate)) (Fin (- 100))
               then Some Suspended
               else accountStatus
            (landlord (Some (Fin (- (5305803310995865 / 281474976710656)))) (Some Active)))"
    by (rule deductCommission_suspends_iff [OF _ _ _ _ s2]) (simp_all add: concrete_defs)
  show ?thesis
    using a b by (simp add: landlord_def number_facts)
qed



section \<open>The ledger: runs of deductions\<close>









section \<open>The account-status check\<close>

text \<open>
  C9, as the claim states it, fails: the read of the user document is inside a
  \<open>try\<close> whose \<open>catch\<close> returns \<open>true\<close>. For an owner whose stored record exists and
  is suspended, a read that throws makes checkAccountStatus answer \<open>true\<close>.
\<close>

theorem checkAccountStatus_read_failure_true:
  "is_owner (owner_world (Fin (- 150)) Suspended)
   \<and> map_option accountStatus (users (db (owner_world (Fin (- 150)) Suspended)) ''L1'')
       = Some (Some Suspended)
   \<and> checkAccountStatus env_read_fails (owner_world (Fin (- 150)) Suspended)"
  by (simp add: checkAccountStatus_def is_owner_def concrete_defs)

text \<open>
  C9, amended. checkAccountStatus answers from the stored user document, not from the
  cached \<open>userData\<close>: for an owner whose stored record exists and whose read succeeds, it
  returns true exactly when the stored accountStatus is active, whatever status the cache
  holds. A caller who is not an owner always receives true, and so does any caller whose
  read throws.
\<close>

theorem checkAccountStatus_reads_store:
  "(\<not> is_owner w \<longrightarrow> checkAccountStatus e w)
   \<and> (user_read_fails e \<longrightarrow> checkAccountStatus e w)
   \<and> (currentUser w = Some u \<and> userData w = Some d \<and> role d = Owner
        \<and> users (db w) u = Some acc \<and> \<not> user_read_fails e \<longrightarrow>
        checkAccountStatus e w = (accountStatus acc = Some Active)
        \<and> checkAccountStatus e (w\<lparr>userData := Some (d\<lparr>accountStatus := x\<rparr>)\<rparr>)
            = checkAccountStatus e w)"
  by (auto simp: checkAccountStatus_def is_owner_def split: option.splits)

text \<open>Witness for C9, amended: the store says suspended, the stale cache says active,
  the read succeeds, and the answer is false.\<close>

theorem checkAccountStatus_reads_store_witness:
  "\<not> checkAccountStatus env_ok
       (world_of (landlord (Some (Fin (- 150))) (Some Suspended))
                 (landlord (Some (Fin 0)) (Some Active)) [])"
  using checkAccountStatus_reads_store [of
     "world_of (landlord (Some (Fin (- 150))) (Some Suspended)) (landlord (Some (Fin 0)) (Some Active)) []"
     env_ok "''L1''" "landlord (Some (Fin 0)) (Some Active)"
     "landlord (Some (Fin (- 150))) (Some Suspended)" "Some Active"]
  by (simp add: concrete_defs)

section \<open>The recharge\<close>

text \<open>
  C6, as the claim states it, fails: rechargeWallet has no check of the amount. Called by
  an owner with the amount -5 on balance 0 it returns normally, appends a transaction and
  writes the balance -5.
\<close>

theorem rechargeWallet_negative_amount_written:
  "fst (rechargeWallet env_ok (Fin (- 5)) (RechargeDescription (Fin (- 5)))
          (owner_world (Fin 0) Active)) = Inr ()
   \<and> map amount (transactions (db (snd (rechargeWallet env_ok (Fin (- 5))
          (RechargeDescription (Fin (- 5))) (owner_world (Fin 0) Active))))) = [Fin (- 5)]
   \<and> map_option walletBalance
        (users (db (snd (rechargeWallet env_ok (Fin (- 5)) (RechargeDescription (Fin (- 5)))
          (owner_world (Fin 0) Active)))) ''L1'')
     = Some (Some (Fin (- 5)))"
  by (simp add: concrete_defs ledger_defs number_facts)

text \<open>
  C6, amended. The check is in handleRecharge, the only caller of rechargeWallet: when
  the parsed amount is not strictly positive (it is \<open>NaN\<close>, zero, negative or minus
  infinity), handleRecharge shows the invalid-amount error and returns before
  rechargeWallet is called, so nothing is written and the whole state is unchanged.
\<close>

theorem handleRecharge_rejects_nonpositive:
  "\<not> js_lt (Fin 0) parsed \<Longrightarrow> handleRecharge e parsed w = (Some InvalidAmountToast, w)"
  by (cases parsed) (auto simp: handleRecharge_def)

text \<open>Witness for C6, amended: the amount -5.\<close>

theorem handleRecharge_rejects_nonpositive_witness:
  "\<not> js_lt (Fin 0) (Fin (- 5))
   \<and> handleRecharge env_ok (Fin (- 5)) (owner_world (Fin 0) Active)
      = (Some InvalidAmountToast, owner_world (Fin 0) Active)"
proof -
  have h: "\<not> js_lt (Fin 0) (Fin (- 5))"
    by simp
  show ?thesis
    using h handleRecharge_rejects_nonpositive [OF h] by simp
qed

section \<open>The booking flow\<close>

lemmas booking_defs = handleBookingAction_def writeBookingStatus_def updateDoc_bookings_def
  status_of_action_def set_status_def setBookingStatus_def checkAccountStatus_def
  confirmBookingAcceptance_def Let_def

lemma deductCommission_frame:
  "bookings (db (snd (deductCommission e b p r w))) = bookings (db w)
   \<and> bookingsState (snd (deductCommission e b p r w)) = bookingsState w"
  by (auto simp: deductCommission_def addDoc_transactions_def updateDoc_users_def
        fetchTransactions_def Let_def split: option.splits sum.splits)

lemma map_of_set_status:
  "map_of (map (set_status k st) xs) k' =
     (if k' = k then map_option (\<lambda>d. d\<lparr>doc_status := st\<rparr>) (map_of xs k) else map_of xs k')"
  by (induction xs) (auto simp: set_status_def)

lemma updateDoc_bookings_frame:
  assumes "updateDoc_bookings e k st s = Inr s'"
  shows "users s' = users s" and "transactions s' = transactions s"
    and "properties s' = properties s"
    and "bookings s' = map (set_status k st) (bookings s)"
  using assms by (auto simp: updateDoc_bookings_def split: if_splits option.splits)

text \<open>The commission dialog, and with it confirmBookingAcceptance, is only reached for
  a booking whose rental amount is truthy.\<close>

lemma handleBookingAction_selects_truthy:
  assumes "handleBookingAction e k a w = (t, w')" and "selectedBooking w' \<noteq> selectedBooking w"
  shows "\<exists>sb. selectedBooking w' = Some sb \<and> truthy (rentalAmount sb) \<and> b_id sb = k"
proof -
  have "selectedBooking (snd (writeBookingStatus e k a w)) = selectedBooking w"
    by (auto simp: writeBookingStatus_def split: sum.splits)
  then show ?thesis
    using assms
    by (auto simp: handleBookingAction_def Let_def split: if_splits option.splits
          dest: find_Some_iff [THEN iffD1])
qed

text \<open>
  C4. In confirmBookingAcceptance for a selected booking with a truthy rental amount (the
  only kind the dialog is opened for), deductCommission runs first, on the booking's id,
  property and rental amount. If it fails, the outcome is the error toast and the state
  the failed deduction left: stored bookings and the local list are untouched, so the
  booking is still pending. If it succeeds, the booking write is applied to the store the
  deduction left behind, so the transaction and the new balance are in the final store;
  when that write goes through, the booking is accepted, the success toast is shown, the
  dialog is closed and the reload requested, and when it is rejected the error toast is
  shown. A stored booking changes only after a successful deduction.
\<close>

theorem confirmBookingAcceptance_deducts_first:
  assumes sel: "selectedBooking w = Some sb" and tr: "truthy (rentalAmount sb)"
    and ded: "deductCommission e (b_id sb) (b_propertyId sb) (or0 (rentalAmount sb)) w = (r, w1)"
    and run: "confirmBookingAcceptance e w = (t, w')"
  shows "(r \<noteq> Inr () \<longrightarrow>
            t = Some ErrorToast \<and> w' = w1
            \<and> bookings (db w') = bookings (db w) \<and> bookingsState w' = bookingsState w)
       \<and> (r = Inr () \<longrightarrow>
            users (db w') = users (db w1) \<and> transactions (db w') = transactions (db w1))
       \<and> (r = Inr () \<and> \<not> booking_update_fails e \<and> map_of (bookings (db w)) (b_id sb) = Some bd \<longrightarrow>
            t = Some CommissionAcceptedToast
            \<and> updateDoc_bookings e (b_id sb) Accepted (db w1) = Inr (db w')
            \<and> map_of (bookings (db w')) (b_id sb) = Some (bd\<lparr>doc_status := Accepted\<rparr>)
            \<and> selectedBooking w' = None \<and> \<not> showCommissionDialog w' \<and> reloadRequested w')
       \<and> (r = Inr () \<and> (booking_update_fails e \<or> map_of (bookings (db w)) (b_id sb) = None) \<longrightarrow>
            t = Some ErrorToast \<and> w' = w1)
       \<and> (bookings (db w') \<noteq> bookings (db w) \<longrightarrow> r = Inr ())"
proof -
  have fr: "bookings (db w1) = bookings (db w)" "bookingsState w1 = bookingsState w"
    using deductCommission_frame [of e "b_id sb" "b_propertyId sb" "or0 (rentalAmount sb)" w] ded
    by simp_all
  show ?thesis
  proof (cases r)
    case (Inl err)
    then have "t = Some ErrorToast" "w' = w1"
      using sel tr ded run by (simp_all add: confirmBookingAcceptance_def)
    then show ?thesis using Inl fr by simp
  next
    case (Inr ok)
    show ?thesis
    proof (cases "updateDoc_bookings e (b_id sb) Accepted (db w1)")
      case (Inl err)
      then have res: "t = Some ErrorToast" "w' = w1"
        using sel tr ded run Inr by (simp_all add: confirmBookingAcceptance_def)
      have "booking_update_fails e \<or> map_of (bookings (db w)) (b_id sb) = None"
        using Inl fr by (auto simp: updateDoc_bookings_def split: if_splits option.splits)
      then show ?thesis using res Inr fr by auto
    next
      case upd: (Inr s)
      then have res: "t = Some CommissionAcceptedToast" "db w' = s"
          "selectedBooking w' = None" "\<not> showCommissionDialog w'" "reloadRequested w'"
        using sel tr ded run Inr by (auto simp: confirmBookingAcceptance_def)
      note f = updateDoc_bookings_frame [OF upd]
      have ok: "\<not> booking_update_fails e" "map_of (bookings (db w)) (b_id sb) \<noteq> None"
        using upd fr by (auto simp: updateDoc_bookings_def split: if_splits option.splits)
      show ?thesis
        using res upd Inr f fr ok by (auto simp: map_of_set_status)
    qed
  qed
qed

text \<open>
  Witness for C4, twice. With the transaction write rejected the deduction fails: the
  error toast is shown, booking B1 is still pending and no transaction was written. With
  no failure the deduction succeeds: the success toast is shown, booking B1 is accepted and
  the commission of 1 is in the ledger.
\<close>

theorem confirmBookingAcceptance_deducts_first_witness:
  "fst (confirmBookingAcceptance env_add_fails
          ((owner_world (Fin 0) Active)\<lparr>selectedBooking := Some selected1\<rparr>)) = Some ErrorToast
   \<and> map_option doc_status (map_of (bookings (db (snd (confirmBookingAcceptance env_add_fails
          ((owner_world (Fin 0) Active)\<lparr>selectedBooking := Some selected1\<rparr>))))) ''B1'')
       = Some Pending
   \<and> fst (confirmBookingAcceptance env_ok
          ((owner_world (Fin 0) Active)\<lparr>selectedBooking := Some selected1\<rparr>))
       = Some CommissionAcceptedToast
   \<and> map_option doc_status (map_of (bookings (db (snd (confirmBookingAcceptance env_ok
          ((owner_world (Fin 0) Active)\<lparr>selectedBooking := Some selected1\<rparr>))))) ''B1'')
       = Some Accepted
   \<and> map amount (transactions (db (snd (confirmBookingAcceptance env_ok
          ((owner_world (Fin 0) Active)\<lparr>selectedBooking := Some selected1\<rparr>)))))
       = [Fin (- 1)]"
proof -
  let ?w = "(owner_world (Fin 0) Active)\<lparr>selectedBooking := Some selected1\<rparr>"
  let ?d1 = "deductCommission env_add_fails (b_id selected1) (b_propertyId selected1)
               (or0 (rentalAmount selected1)) ?w"
  let ?d2 = "deductCommission env_ok (b_id selected1) (b_propertyId selected1)
               (or0 (rentalAmount selected1)) ?w"
  let ?c1 = "confirmBookingAcceptance env_add_fails ?w"
  let ?c2 = "confirmBookingAcceptance env_ok ?w"
  have sel: "selectedBooking ?w = Some selected1"
    by (simp add: concrete_defs)
  have tr: "truthy (rentalAmount selected1)"
    by (simp add: selected1_def truthy_def)
  have d1: "?d1 = (Inl WriteFailure, ?w)"
    by (simp add: concrete_defs ledger_defs number_facts)
  have d2: "?d2 = (Inr (), snd ?d2)"
    by (simp add: concrete_defs ledger_defs number_facts)
  have st: "map_of (bookings (db ?w)) (b_id selected1) = Some booking1"
    by (simp add: concrete_defs)
  have tx: "map amount (transactions (db (snd ?d2))) = [Fin (- 1)]"
    by (simp add: concrete_defs ledger_defs number_facts)
  have ok: "\<not> booking_update_fails env_ok"
    by (simp add: env_ok_def)
  have id: "b_id selected1 = ''B1''"
    by (simp add: selected1_def)
  note a = confirmBookingAcceptance_deducts_first [OF sel tr d1, of "fst ?c1" "snd ?c1" booking1]
  note b = confirmBookingAcceptance_deducts_first [OF sel tr d2, of "fst ?c2" "snd ?c2" booking1]
  have "fst ?c1 = Some ErrorToast \<and> bookings (db (snd ?c1)) = bookings (db ?w)"
    using a by simp
  moreover have "fst ?c2 = Some CommissionAcceptedToast
      \<and> map_of (bookings (db (snd ?c2))) ''B1'' = Some (booking1\<lparr>doc_status := Accepted\<rparr>)
      \<and> transactions (db (snd ?c2)) = transactions (db (snd ?d2))"
    using b st ok id by simp
  ultimately show ?thesis
    using st tx id by (simp add: booking1_def)
qed

text \<open>
  C5. When checkAccountStatus returns false, an accept attempt stops at the guard with
  the account-suspended toast: the store (bookings, transactions, user records) and the
  client state are exactly what they were, and no deduction is started.
\<close>

theorem handleBookingAction_suspended_aborts:
  "\<not> checkAccountStatus e w \<Longrightarrow>
   handleBookingAction e k AcceptAction w = (Some AccountSuspendedToast, w)"
  by (simp add: handleBookingAction_def Let_def)

text \<open>Witness for C5: the stored account is suspended.\<close>

theorem handleBookingAction_suspended_aborts_witness:
  "\<not> checkAccountStatus env_ok (owner_world (Fin (- 150)) Suspended)
   \<and> handleBookingAction env_ok ''B1'' AcceptAction (owner_world (Fin (- 150)) Suspended)
      = (Some AccountSuspendedToast, owner_world (Fin (- 150)) Suspended)"
proof -
  have h: "\<not> checkAccountStatus env_ok (owner_world (Fin (- 150)) Suspended)"
    by (simp add: checkAccountStatus_def concrete_defs)
  show ?thesis
    using h handleBookingAction_suspended_aborts [OF h] by simp
qed

text \<open>
  C7. A reject action on a stored booking never reaches the account-status guard and
  never touches the ledger: user records, transactions, properties, the cached user data
  and the transaction view are what they were, whatever the account status and whatever
  the price of the property. When the booking write goes through, the booking's status is
  rejected, every other booking is as before, and the rejected toast is shown; when the
  store rejects the write, nothing at all changes and the error toast is shown.
\<close>

theorem reject_touches_only_booking:
  assumes "map_of (bookings (db w)) k = Some bd"
    and "handleBookingAction e k RejectAction w = (t, w')"
  shows "users (db w') = users (db w) \<and> transactions (db w') = transactions (db w)
       \<and> properties (db w') = properties (db w)
       \<and> userData w' = userData w \<and> currentUser w' = currentUser w \<and> txView w' = txView w
       \<and> (\<not> booking_update_fails e \<longrightarrow>
            t = Some RejectedToast
            \<and> map_of (bookings (db w')) k = Some (bd\<lparr>doc_status := Rejected\<rparr>)
            \<and> (\<forall>k'. k' \<noteq> k \<longrightarrow> map_of (bookings (db w')) k' = map_of (bookings (db w)) k'))
       \<and> (booking_update_fails e \<longrightarrow> t = Some ErrorToast \<and> w' = w)"
  using assms
  by (auto simp: handleBookingAction_def writeBookingStatus_def updateDoc_bookings_def
        status_of_action_def map_of_set_status Let_def split: if_splits)

text \<open>Witness for C7: a suspended landlord rejects the pending booking B1.\<close>

theorem reject_touches_only_booking_witness:
  "fst (handleBookingAction env_ok ''B1'' RejectAction (owner_world (Fin (- 150)) Suspended))
     = Some RejectedToast
   \<and> map_option doc_status (map_of (bookings (db (snd (handleBookingAction env_ok ''B1''
        RejectAction (owner_world (Fin (- 150)) Suspended))))) ''B1'') = Some Rejected
   \<and> transactions (db (snd (handleBookingAction env_ok ''B1'' RejectAction
        (owner_world (Fin (- 150)) Suspended)))) = []"
  using reject_touches_only_booking [of
     "owner_world (Fin (- 150)) Suspended" "''B1''" booking1 env_ok
     "fst (handleBookingAction env_ok ''B1'' RejectAction (owner_world (Fin (- 150)) Suspended))"
     "snd (handleBookingAction env_ok ''B1'' RejectAction (owner_world (Fin (- 150)) Suspended))"]
  by (simp add: concrete_defs booking_defs)

section \<open>The rental amount of a booking\<close>

lemma find_unique:
  assumes "x \<in> set xs" and "P x" and "\<forall>y \<in> set xs. P y \<longrightarrow> y = x"
  shows "find P xs = Some x"
  using assms
proof (induction xs)
  case Nil
  then show ?case by simp
next
  case (Cons a xs)
  show ?case
  proof (cases "P a")
    case True
    then have "a = x" using Cons.prems(3) by simp
    then show ?thesis using True by simp
  next
    case False
    then have "x \<in> set xs" using Cons.prems(1,2) by auto
    moreover have "\<forall>y \<in> set xs. P y \<longrightarrow> y = x" using Cons.prems(3) by simp
    ultimately have "find P xs = Some x" using Cons.IH Cons.prems(2) by blast
    then show ?thesis using False by simp
  qed
qed

lemma b_id_toBooking: "b_id (toBooking pm kd) = fst kd"
  by (simp add: toBooking_def)

lemma toBooking_unique:
  assumes dist: "distinct (map fst xs)" and mem: "(k, bd) \<in> set xs"
    and y: "y \<in> toBooking pm ` set (filter Q xs)" and yk: "b_id y = k"
  shows "y = toBooking pm (k, bd)"
proof -
  from y obtain k' bd' where kd: "(k', bd') \<in> set xs" and ydef: "y = toBooking pm (k', bd')"
    by auto
  have "k' = k" using yk by (simp add: ydef b_id_toBooking)
  have "bd' = bd"
    using dist kd mem unfolding \<open>k' = k\<close> by (rule eq_key_imp_eq_value)
  show ?thesis by (simp add: ydef \<open>k' = k\<close> \<open>bd' = bd\<close>)
qed

lemma fetchBookings_set:
  assumes "currentUser w = Some u" and "\<not> bookings_fetch_fails e"
  shows "set (bookingsState (fetchBookings e w))
         = toBooking (map_of (filter (\<lambda>kp. p_ownerId (snd kp) = u) (properties (db w))))
             ` set (filter (\<lambda>kd. ownerId (snd kd) = u) (bookings (db w)))"
  using assms by (simp add: fetchBookings_def Let_def)

lemma fetchBookings_find:
  assumes cu: "currentUser w = Some u"
    and dist: "distinct (map fst (bookings (db w)))"
    and mem: "(k, bd) \<in> set (bookings (db w))"
    and own: "ownerId bd = u"
    and ok: "\<not> bookings_fetch_fails e"
  shows "find (\<lambda>b. b_id b = k) (bookingsState (fetchBookings e w))
         = Some (toBooking (map_of (filter (\<lambda>kp. p_ownerId (snd kp) = u) (properties (db w)))) (k, bd))"
proof (rule find_unique)
  let ?pm = "map_of (filter (\<lambda>kp. p_ownerId (snd kp) = u) (properties (db w)))"
  let ?mine = "filter (\<lambda>kd. ownerId (snd kd) = u) (bookings (db w))"
  note eq = fetchBookings_set [OF cu ok]
  have "(k, bd) \<in> set ?mine"
    using mem own by simp
  then have "toBooking ?pm (k, bd) \<in> toBooking ?pm ` set ?mine"
    by (rule imageI)
  then show "toBooking ?pm (k, bd) \<in> set (bookingsState (fetchBookings e w))"
    unfolding eq .
  show "b_id (toBooking ?pm (k, bd)) = k"
    by (simp add: b_id_toBooking)
  show "\<forall>y \<in> set (bookingsState (fetchBookings e w)). b_id y = k \<longrightarrow> y = toBooking ?pm (k, bd)"
    unfolding eq
  proof (intro ballI impI)
    fix y assume y: "y \<in> toBooking ?pm ` set ?mine" and yk: "b_id y = k"
    show "y = toBooking ?pm (k, bd)"
      using y yk by (rule toBooking_unique [OF dist mem])
  qed
qed

lemma or0_falsy: "\<not> truthy x \<Longrightarrow> or0 x = Fin 0"
  by (auto simp: truthy_def or0_def split: option.splits)

lemma resolveRentalAmount_missing:
  assumes "\<forall>pd. (pid, pd) \<in> set ps \<longrightarrow> \<not> truthy (pricePerMonth pd)"
  shows "resolveRentalAmount (map_of (filter Q ps)) pid = Fin 0"
proof (cases "map_of (filter Q ps) pid")
  case None
  then show ?thesis by (simp add: resolveRentalAmount_def or0_def)
next
  case (Some pd)
  then have "(pid, pd) \<in> set (filter Q ps)"
    by (rule map_of_SomeD)
  then have "(pid, pd) \<in> set ps" by simp
  then have "\<not> truthy (pricePerMonth pd)" using assms by blast
  then show ?thesis using Some by (simp add: resolveRentalAmount_def or0_falsy)
qed

text \<open>
  C8, as the claim states it, fails. The rental amount is resolved once, when the booking
  list is loaded, and the acceptance flow reads that cached amount. The list was loaded
  while property P1 had the price 40; the property document was then deleted. Accepting
  the booking opens the commission dialog with the rental amount 40, and the confirmation
  deducts the commission 1: the amount did not resolve to 0.
\<close>

theorem accept_after_property_deleted:
  "properties (db deleted_world) = []
   \<and> fst (handleBookingAction env_ok ''B1'' AcceptAction deleted_world) = None
   \<and> map_option rentalAmount
        (selectedBooking (snd (handleBookingAction env_ok ''B1'' AcceptAction deleted_world)))
       = Some (Some (Fin 40))
   \<and> fst (confirmBookingAcceptance env_ok
        (snd (handleBookingAction env_ok ''B1'' AcceptAction deleted_world)))
       = Some CommissionAcceptedToast
   \<and> map amount (transactions (db (snd (confirmBookingAcceptance env_ok
        (snd (handleBookingAction env_ok ''B1'' AcceptAction deleted_world))))))
       = [Fin (- 1)]
   \<and> map_option walletBalance (users (db (snd (confirmBookingAcceptance env_ok
        (snd (handleBookingAction env_ok ''B1'' AcceptAction deleted_world))))) ''L1'')
       = Some (Some (Fin (- 1)))"
  by (simp add: deleted_world_def priced_world_def fetchBookings_def toBooking_def
        resolveRentalAmount_def concrete_defs booking_defs ledger_defs number_facts)

text \<open>
  C8, amended. If, when the booking list was loaded, no property document of the owner
  with a truthy monthly price was stored under the booking's property id (the property was
  already deleted, or had no recorded price), the rental amount the acceptance flow uses is
  0, whatever happens to the property afterwards. An accept attempt then opens no
  commission dialog and leaves user records and transactions untouched: no commission is
  taken, no transaction is appended, no suspension can follow. It ends with the
  account-suspended toast and no change when the account-status guard fails, with the
  booking marked accepted when the guard passes and the booking write goes through, and
  with the error toast and no change when the store rejects that write.
\<close>

theorem accept_without_price:
  assumes cu: "currentUser w0 = Some u"
    and dist: "distinct (map fst (bookings (db w0)))"
    and mem: "(k, bd) \<in> set (bookings (db w0))"
    and own: "ownerId bd = u"
    and noprice: "\<forall>pd. (doc_propertyId bd, pd) \<in> set (properties (db w0)) \<longrightarrow>
                    \<not> truthy (pricePerMonth pd)"
    and fetch_ok: "\<not> bookings_fetch_fails e0"
    and loaded: "bookingsState w = bookingsState (fetchBookings e0 w0)"
    and run: "handleBookingAction e k AcceptAction w = (t, w')"
  shows "map_option rentalAmount (find (\<lambda>b. b_id b = k) (bookingsState w)) = Some (Some (Fin 0))
       \<and> users (db w') = users (db w) \<and> transactions (db w') = transactions (db w)
       \<and> selectedBooking w' = selectedBooking w
       \<and> showCommissionDialog w' = showCommissionDialog w
       \<and> (\<not> checkAccountStatus e w \<or> (\<exists>d. userData w = Some d \<and> accountStatus d = Some Suspended)
            \<longrightarrow> t = Some AccountSuspendedToast \<and> w' = w)
       \<and> (checkAccountStatus e w \<and> (\<forall>d. userData w = Some d \<longrightarrow> accountStatus d \<noteq> Some Suspended)
            \<and> \<not> booking_update_fails e \<and> map_of (bookings (db w)) k = Some bd'
            \<longrightarrow> t = Some AcceptedToast
                \<and> map_of (bookings (db w')) k = Some (bd'\<lparr>doc_status := Accepted\<rparr>))
       \<and> (checkAccountStatus e w \<and> (\<forall>d. userData w = Some d \<longrightarrow> accountStatus d \<noteq> Some Suspended)
            \<and> (booking_update_fails e \<or> map_of (bookings (db w)) k = None)
            \<longrightarrow> t = Some ErrorToast \<and> w' = w)"
proof -
  let ?pm = "map_of (filter (\<lambda>kp. p_ownerId (snd kp) = u) (properties (db w0)))"
  have fnd: "find (\<lambda>b. b_id b = k) (bookingsState w) = Some (toBooking ?pm (k, bd))"
    unfolding loaded by (rule fetchBookings_find [OF cu dist mem own fetch_ok])
  have zero: "rentalAmount (toBooking ?pm (k, bd)) = Some (Fin 0)"
    using resolveRentalAmount_missing [OF noprice] by (simp add: toBooking_def)
  have falsy: "\<not> truthy (rentalAmount (toBooking ?pm (k, bd)))"
    by (simp add: zero truthy_def)
  show ?thesis
  proof (cases "\<not> checkAccountStatus e w
                \<or> (\<exists>d. userData w = Some d \<and> accountStatus d = Some Suspended)")
    case True
    then have "handleBookingAction e k AcceptAction w = (Some AccountSuspendedToast, w)"
      by (auto simp: handleBookingAction_def Let_def)
    then have "t = Some AccountSuspendedToast" "w' = w" using run by simp_all
    then show ?thesis using True fnd zero by auto
  next
    case False
    then have g: "checkAccountStatus e w"
        "\<not> (case userData w of None \<Rightarrow> False | Some d \<Rightarrow> accountStatus d = Some Suspended)"
      by (auto split: option.splits)
    have "handleBookingAction e k AcceptAction w = writeBookingStatus e k AcceptAction w"
      using g fnd falsy by (simp add: handleBookingAction_def Let_def)
    then have res: "writeBookingStatus e k AcceptAction w = (t, w')"
      using run by simp
    show ?thesis
    proof (cases "updateDoc_bookings e k Accepted (db w)")
      case (Inl err)
      then have r: "t = Some ErrorToast" "w' = w"
        using res by (simp_all add: writeBookingStatus_def status_of_action_def)
      have "booking_update_fails e \<or> map_of (bookings (db w)) k = None"
        using Inl by (auto simp: updateDoc_bookings_def split: if_splits option.splits)
      then show ?thesis using r False fnd zero by auto
    next
      case (Inr s)
      then have r: "t = Some AcceptedToast" "db w' = s"
          "selectedBooking w' = selectedBooking w"
          "showCommissionDialog w' = showCommissionDialog w"
        using res by (auto simp: writeBookingStatus_def status_of_action_def)
      note f = updateDoc_bookings_frame [OF Inr]
      have ok: "\<not> booking_update_fails e" "map_of (bookings (db w)) k \<noteq> None"
        using Inr by (auto simp: updateDoc_bookings_def split: if_splits option.splits)
      show ?thesis
        using r f ok False fnd zero by (auto simp: map_of_set_status)
    qed
  qed
qed

text \<open>Witness for C8, amended: the property P1 of booking B1 is not in the store when
  the list is loaded; the owner is active and the write goes through.\<close>

theorem accept_without_price_witness:
  "map_option rentalAmount (find (\<lambda>b. b_id b = ''B1'')
        (bookingsState (fetchBookings env_ok (owner_world (Fin 0) Active))))
     = Some (Some (Fin 0))
   \<and> fst (handleBookingAction env_ok ''B1'' AcceptAction
           (fetchBookings env_ok (owner_world (Fin 0) Active)))
     = Some AcceptedToast
   \<and> map_option doc_status (map_of (bookings (db (snd
         (handleBookingAction env_ok ''B1'' AcceptAction
            (fetchBookings env_ok (owner_world (Fin 0) Active)))))) ''B1'')
     = Some Accepted
   \<and> transactions (db (snd
         (handleBookingAction env_ok ''B1'' AcceptAction
            (fetchBookings env_ok (owner_world (Fin 0) Active))))) = []"
proof -
  let ?init = "owner_world (Fin 0) Active"
  let ?loaded = "fetchBookings env_ok ?init"
  let ?r = "handleBookingAction env_ok ''B1'' AcceptAction ?loaded"
  have h: "currentUser ?init = Some ''L1''"
      "distinct (map fst (bookings (db ?init)))"
      "(''B1'', booking1) \<in> set (bookings (db ?init))"
      "ownerId booking1 = ''L1''"
      "\<forall>pd. (doc_propertyId booking1, pd) \<in> set (properties (db ?init)) \<longrightarrow>
              \<not> truthy (pricePerMonth pd)"
      "\<not> bookings_fetch_fails env_ok"
    by (simp_all add: concrete_defs)
  have g: "checkAccountStatus env_ok ?loaded"
      "\<forall>d. userData ?loaded = Some d \<longrightarrow> accountStatus d \<noteq> Some Suspended"
      "\<not> booking_update_fails env_ok"
      "map_of (bookings (db ?loaded)) ''B1'' = Some booking1"
      "transactions (db ?loaded) = []"
    by (simp_all add: concrete_defs fetchBookings_def checkAccountStatus_def)
  note t = accept_without_price [of ?init "''L1''" "''B1''" booking1 env_ok ?loaded env_ok
      "fst ?r" "snd ?r" booking1, OF h refl]
  show ?thesis
    using t g by (simp add: booking1_def)
qed

end
